theory Spec2Isabelle
  imports Main "HOL-Library.Word"
begin

section \<open>JavaScript values\<close>

text \<open>
  A JavaScript string is a sequence of UTF-16 code units. ASCII literals of the source
  are written \<open>js ''...''\<close>.
\<close>

type_synonym jstring = "16 word list"

definition js :: "string \<Rightarrow> jstring" where
  "js s = map of_char s"

text \<open>
  The values that flow through \<open>Session.ts\<close>: \<open>undefined\<close> and what \<open>JSON.parse\<close>
  can return. Numbers are restricted to the integers (the program only tests a number
  for truthiness and passes it on). An object is the list of its properties in order;
  the first binding of a key is the one that is read.
\<close>

datatype jsval =
    JUndefined
  | JNull
  | JBool bool
  | JNum int
  | JStr jstring
  | JArr "jsval list"
  | JObj "(jstring \<times> jsval) list"

text \<open>The coercion \<open>!!v\<close>.\<close>

fun truthy :: "jsval \<Rightarrow> bool" where
  "truthy JUndefined = False"
| "truthy JNull = False"
| "truthy (JBool b) = b"
| "truthy (JNum n) = (n \<noteq> 0)"
| "truthy (JStr s) = (s \<noteq> [])"
| "truthy (JArr _) = True"
| "truthy (JObj _) = True"

text \<open>What a handler can throw, and what a promise can be rejected with.\<close>

datatype failure =
    Error nat         \<comment> \<open>\<open>new Error(res.statusCode)\<close>: built from the status code\<close>
  | TypeError         \<comment> \<open>property read on \<open>undefined\<close> or \<open>null\<close>\<close>
  | SyntaxError       \<comment> \<open>thrown by \<open>JSON.parse\<close>\<close>
  | TransportError jstring  \<comment> \<open>the error object of the request's \<open>'error'\<close> event\<close>

text \<open>
  The property read \<open>v.id\<close>: a \<open>TypeError\<close> on \<open>undefined\<close> and \<open>null\<close>, the
  property's value on an object that has it, \<open>undefined\<close> otherwise.
\<close>

fun get_id :: "jsval \<Rightarrow> failure + jsval" where
  "get_id JUndefined = Inl TypeError"
| "get_id JNull = Inl TypeError"
| "get_id (JObj ps) = (case map_of ps (js ''id'') of None \<Rightarrow> Inr JUndefined | Some v \<Rightarrow> Inr v)"
| "get_id _ = Inr JUndefined"

section \<open>The platform\<close>

text \<open>
  \<open>JSON.stringify\<close> and \<open>JSON.parse\<close> belong to the JavaScript runtime, not to the
  repository. They are parameters of the model: every theorem holds for any serializer
  and any parser. \<open>JSON_parse\<close> returns \<open>None\<close> where \<open>JSON.parse\<close> throws.
\<close>

record platform =
  JSON_stringify :: "jsval \<Rightarrow> jstring"
  JSON_parse :: "jstring \<Rightarrow> jsval option"

text \<open>
  Modelled from the spec: \<open>Buffer\<close> is only declared in \<open>Session.ts\<close>
  (\<open>declare const Buffer\<close>); the spec describes \<open>Buffer.byteLength\<close> as the byte length
  of the UTF-8 encoding of the string. A code unit below \<open>0x80\<close> takes one byte, one
  below \<open>0x800\<close> two, a surrogate pair four, any other unit three (an unpaired surrogate
  is encoded as U+FFFD).
\<close>

definition is_high_surrogate :: "16 word \<Rightarrow> bool" where
  "is_high_surrogate u = (0xD800 \<le> u \<and> u \<le> 0xDBFF)"

definition is_low_surrogate :: "16 word \<Rightarrow> bool" where
  "is_low_surrogate u = (0xDC00 \<le> u \<and> u \<le> 0xDFFF)"

definition unit_bytes :: "16 word \<Rightarrow> nat" where
  "unit_bytes u = (if u < 0x80 then 1 else if u < 0x800 then 2 else 3)"

fun Buffer_byteLength :: "jstring \<Rightarrow> nat" where
  "Buffer_byteLength [] = 0"
| "Buffer_byteLength [u] = unit_bytes u"
| "Buffer_byteLength (u # v # us) =
     (if is_high_surrogate u \<and> is_low_surrogate v then 4 + Buffer_byteLength us
      else unit_bytes u + Buffer_byteLength (v # us))"

section \<open>The session handle\<close>

text \<open>
  Modelled from the spec: the interfaces \<open>SessionProperties\<close> and \<open>TokenOptions\<close> and
  the enumerations \<open>MediaMode\<close>, \<open>RecordingMode\<close>, \<open>RecordingLayout\<close> and
  \<open>OpenViduRole\<close> are imported by \<open>Session.ts\<close> from files that are not among the
  sources. The fields are the ones \<open>Session.ts\<close> reads, each optional (\<open>JUndefined\<close>
  when absent); the enumeration members are the strings the spec gives for the defaults.
\<close>

record SessionProperties =
  mediaMode :: jsval
  recordingMode :: jsval
  defaultRecordingLayout :: jsval
  defaultCustomLayout :: jsval

record TokenOptions =
  role :: jsval
  data :: jsval

definition MediaMode_ROUTED :: jsval where
  "MediaMode_ROUTED = JStr (js ''ROUTED'')"

definition RecordingMode_MANUAL :: jsval where
  "RecordingMode_MANUAL = JStr (js ''MANUAL'')"

definition RecordingLayout_BEST_FIT :: jsval where
  "RecordingLayout_BEST_FIT = JStr (js ''BEST_FIT'')"

definition OpenViduRole_PUBLISHER :: jsval where
  "OpenViduRole_PUBLISHER = JStr (js ''PUBLISHER'')"

text \<open>The object literal \<open>{}\<close> as a \<open>SessionProperties\<close> and as a \<open>TokenOptions\<close>.\<close>

definition empty_properties :: SessionProperties where
  "empty_properties =
     \<lparr>mediaMode = JUndefined, recordingMode = JUndefined,
      defaultRecordingLayout = JUndefined, defaultCustomLayout = JUndefined\<rparr>"

definition empty_options :: TokenOptions where
  "empty_options = \<lparr>role = JUndefined, data = JUndefined\<rparr>"

record Session =
  hostname :: jstring
  port :: nat
  basicAuth :: jstring
  properties :: SessionProperties
  sessionId :: jsval

definition API_SESSIONS :: jstring where
  "API_SESSIONS = js ''/api/sessions''"

definition API_TOKENS :: jstring where
  "API_TOKENS = js ''/api/tokens''"

text \<open>
  The constructor. An omitted \<open>properties\<close> argument is \<open>None\<close>; an object is always
  truthy, so \<open>!properties\<close> holds only then. The field \<open>sessionId\<close> is not assigned:
  it starts as \<open>undefined\<close>.
\<close>

definition constructor ::
  "jstring \<Rightarrow> nat \<Rightarrow> jstring \<Rightarrow> SessionProperties option \<Rightarrow> Session" where
  "constructor hostname' port' basicAuth' properties' =
     \<lparr>hostname = hostname', port = port', basicAuth = basicAuth',
      properties = (case properties' of None \<Rightarrow> empty_properties | Some ps \<Rightarrow> ps),
      sessionId = JUndefined\<rparr>"

section \<open>Promises and requests\<close>

text \<open>A promise settles once: \<open>resolve\<close> and \<open>reject\<close> on a settled promise do nothing.\<close>

datatype promise = Pending | Resolved jsval | Rejected failure

fun resolve :: "jsval \<Rightarrow> promise \<Rightarrow> promise" where
  "resolve v Pending = Resolved v"
| "resolve v p = p"

fun reject :: "failure \<Rightarrow> promise \<Rightarrow> promise" where
  "reject e Pending = Rejected e"
| "reject e p = p"

text \<open>
  What \<open>https.request(options, ...)\<close> followed by \<open>req.write(requestBody)\<close> and
  \<open>req.end()\<close> sends: the options object and the body written.
\<close>

record request_headers =
  Authorization :: jstring
  Content_Type :: jstring
  Content_Length :: nat

record request_options =
  opt_hostname :: jstring
  opt_port :: nat
  path :: jstring
  opt_method :: jstring
  headers :: request_headers

record request =
  options :: request_options
  written :: jstring

section \<open>getSessionId\<close>

text \<open>
  The executor of the promise that \<open>getSessionId\<close> returns, up to \<open>req.end()\<close>: the
  state of the promise and the request sent. After \<open>resolve(this.sessionId)\<close> the
  source does not return: the statements that build and send the request follow the
  \<open>if\<close> and run on both branches.
\<close>

definition getSessionId :: "platform \<Rightarrow> Session \<Rightarrow> promise \<times> request" where
  "getSessionId P this =
     (let p = (if truthy (sessionId this) then resolve (sessionId this) Pending else Pending);
          requestBody = JSON_stringify P (JObj
            [(js ''mediaMode'',
                if truthy (mediaMode (properties this))
                then mediaMode (properties this) else MediaMode_ROUTED),
             (js ''recordingMode'',
                if truthy (recordingMode (properties this))
                then recordingMode (properties this) else RecordingMode_MANUAL),
             (js ''defaultRecordingLayout'',
                if truthy (defaultRecordingLayout (properties this))
                then defaultRecordingLayout (properties this) else RecordingLayout_BEST_FIT),
             (js ''defaultCustomLayout'',
                if truthy (defaultCustomLayout (properties this))
                then defaultCustomLayout (properties this) else JStr [])]);
          options' =
            \<lparr>opt_hostname = hostname this,
             opt_port = port this,
             path = API_SESSIONS,
             opt_method = js ''POST'',
             headers =
               \<lparr>Authorization = basicAuth this,
                Content_Type = js ''application/json'',
                Content_Length = Buffer_byteLength requestBody\<rparr>\<rparr>
      in (p, \<lparr>options = options', written = requestBody\<rparr>))"

text \<open>
  The \<open>'data'\<close> handler appends each chunk, as a string, to \<open>body\<close>, which starts
  empty.
\<close>

definition on_data :: "jstring list \<Rightarrow> jstring" where
  "on_data chunks = foldl (\<lambda>body d. body @ d) [] chunks"

text \<open>
  The \<open>'end'\<close> handler of \<open>getSessionId\<close>, on the handle and the promise of the call.
  \<open>Inl\<close> is an exception thrown by the handler: nothing catches it, the handle and the
  promise stay as they were.
\<close>

definition getSessionId_on_end ::
  "platform \<Rightarrow> nat \<Rightarrow> jstring \<Rightarrow> Session \<Rightarrow> promise \<Rightarrow> failure + Session \<times> promise" where
  "getSessionId_on_end P statusCode body this p =
     (if statusCode = 200 then
        (case JSON_parse P body of
           None \<Rightarrow> Inl SyntaxError
         | Some parsed \<Rightarrow>
             (case get_id parsed of
                Inl e \<Rightarrow> Inl e
              | Inr v \<Rightarrow> Inr (this\<lparr>sessionId := v\<rparr>, resolve v p)))
      else Inr (this, reject (Error statusCode) p))"

text \<open>The \<open>'error'\<close> handler of the request, the same in both operations.\<close>

definition on_error :: "jstring \<Rightarrow> promise \<Rightarrow> promise" where
  "on_error e p = reject (TransportError e) p"

section \<open>generateToken\<close>

text \<open>
  The executor of the promise that \<open>generateToken\<close> returns. An omitted argument is
  \<open>None\<close>: reading \<open>tokenOptions.role\<close> then throws a \<open>TypeError\<close> inside the executor,
  which rejects the promise; no request is built.
\<close>

definition generateToken ::
  "platform \<Rightarrow> TokenOptions option \<Rightarrow> Session \<Rightarrow> promise \<times> request option" where
  "generateToken P tokenOptions this =
     (case tokenOptions of
        None \<Rightarrow> (reject TypeError Pending, None)
      | Some t \<Rightarrow>
          (let requestBody = JSON_stringify P (JObj
                 [(js ''session'', sessionId this),
                  (js ''role'', if truthy (role t) then role t else OpenViduRole_PUBLISHER),
                  (js ''data'', if truthy (data t) then data t else JStr [])]);
               options' =
                 \<lparr>opt_hostname = hostname this,
                  opt_port = port this,
                  path = API_TOKENS,
                  opt_method = js ''POST'',
                  headers =
                    \<lparr>Authorization = basicAuth this,
                     Content_Type = js ''application/json'',
                     Content_Length = Buffer_byteLength requestBody\<rparr>\<rparr>
           in (Pending, Some \<lparr>options = options', written = requestBody\<rparr>)))"

text \<open>The \<open>'end'\<close> handler of \<open>generateToken\<close>: it does not touch the handle.\<close>

definition generateToken_on_end ::
  "platform \<Rightarrow> nat \<Rightarrow> jstring \<Rightarrow> promise \<Rightarrow> failure + promise" where
  "generateToken_on_end P statusCode body p =
     (if statusCode = 200 then
        (case JSON_parse P body of
           None \<Rightarrow> Inl SyntaxError
         | Some parsed \<Rightarrow>
             (case get_id parsed of
                Inl e \<Rightarrow> Inl e
              | Inr v \<Rightarrow> Inr (resolve v p)))
      else Inr (reject (Error statusCode) p))"

section \<open>The event loop\<close>

text \<open>
  One handle, the calls made on it so far (each with its promise and the request it
  sent, if any) and the exceptions no one caught. An event is a call of one of the two
  operations, the end of the response to the request of call \<open>i\<close> (its status code and
  its chunks), or a transport error on that request. Events run one at a time, each to
  completion. An exception thrown by an \<open>'end'\<close> handler is not caught by the promise:
  it is recorded in \<open>uncaught\<close> and the step changes nothing else. An event for a call
  that sent no request does nothing.
\<close>

datatype operation = GetSessionId | GenerateToken

record call =
  operation :: operation
  promise :: promise
  request :: "request option"

record world =
  handle :: Session
  calls :: "call list"
  uncaught :: "failure list"

datatype event =
    Call_getSessionId
  | Call_generateToken "TokenOptions option"
  | End nat nat "jstring list"
  | Err nat jstring

definition settle :: "nat \<Rightarrow> promise \<Rightarrow> world \<Rightarrow> world" where
  "settle i p w = w\<lparr>calls := (calls w)[i := (calls w ! i)\<lparr>promise := p\<rparr>]\<rparr>"

definition in_flight :: "nat \<Rightarrow> world \<Rightarrow> bool" where
  "in_flight i w = (i < length (calls w) \<and> request (calls w ! i) \<noteq> None)"

fun step :: "platform \<Rightarrow> event \<Rightarrow> world \<Rightarrow> world" where
  "step P Call_getSessionId w =
     (case getSessionId P (handle w) of
        (p, r) \<Rightarrow>
          w\<lparr>calls := calls w @ [\<lparr>operation = GetSessionId, promise = p, request = Some r\<rparr>]\<rparr>)"
| "step P (Call_generateToken tokenOptions) w =
     (case generateToken P tokenOptions (handle w) of
        (p, r) \<Rightarrow>
          w\<lparr>calls := calls w @ [\<lparr>operation = GenerateToken, promise = p, request = r\<rparr>]\<rparr>)"
| "step P (End i statusCode chunks) w =
     (if in_flight i w then
        (case operation (calls w ! i) of
           GetSessionId \<Rightarrow>
             (case getSessionId_on_end P statusCode (on_data chunks) (handle w)
                     (promise (calls w ! i)) of
                Inl e \<Rightarrow> w\<lparr>uncaught := uncaught w @ [e]\<rparr>
              | Inr (this, p) \<Rightarrow> settle i p (w\<lparr>handle := this\<rparr>))
         | GenerateToken \<Rightarrow>
             (case generateToken_on_end P statusCode (on_data chunks)
                     (promise (calls w ! i)) of
                Inl e \<Rightarrow> w\<lparr>uncaught := uncaught w @ [e]\<rparr>
              | Inr p \<Rightarrow> settle i p w))
      else w)"
| "step P (Err i e) w =
     (if in_flight i w then settle i (on_error e (promise (calls w ! i))) w else w)"

definition run :: "platform \<Rightarrow> event list \<Rightarrow> world \<Rightarrow> world" where
  "run P es w = fold (step P) es w"

text \<open>The requests sent so far, in order, and a handle on which nothing was called yet.\<close>

definition requests :: "world \<Rightarrow> request list" where
  "requests w = List.map_filter request (calls w)"

definition start :: "Session \<Rightarrow> world" where
  "start this = \<lparr>handle = this, calls = [], uncaught = []\<rparr>"

section \<open>An example platform\<close>

text \<open>
  A serializer and a parser to run the model on concrete inputs. \<open>serialize\<close> writes a
  value the way \<open>JSON.stringify\<close> does for strings without control characters and
  unpaired surrogates: a property whose value is \<open>undefined\<close> is left out of an object,
  \<open>undefined\<close> in an array is written \<open>null\<close>. The parser of \<open>example_platform known\<close>
  reads back the texts of the values listed in \<open>known\<close> and rejects every other text.
\<close>

fun digits :: "nat \<Rightarrow> jstring" where
  "digits n =
     (if n < 10 then [0x30 + of_nat n] else digits (n div 10) @ [0x30 + of_nat (n mod 10)])"

declare digits.simps [simp del]

definition show_int :: "int \<Rightarrow> jstring" where
  "show_int i = (if i < 0 then 0x2D # digits (nat (- i)) else digits (nat i))"

definition quote :: "jstring \<Rightarrow> jstring" where
  "quote s =
     [0x22] @ concat (map (\<lambda>u. if u = 0x22 \<or> u = 0x5C then [0x5C, u] else [u]) s) @ [0x22]"

fun join :: "jstring list \<Rightarrow> jstring" where
  "join [] = []"
| "join [x] = x"
| "join (x # y # ys) = x @ [0x2C] @ join (y # ys)"

fun serialize :: "jsval \<Rightarrow> jstring option" where
  "serialize JUndefined = None"
| "serialize JNull = Some (js ''null'')"
| "serialize (JBool b) = Some (if b then js ''true'' else js ''false'')"
| "serialize (JNum n) = Some (show_int n)"
| "serialize (JStr s) = Some (quote s)"
| "serialize (JArr vs) =
     Some ([0x5B]
       @ join (map (\<lambda>v. case serialize v of None \<Rightarrow> js ''null'' | Some s \<Rightarrow> s) vs)
       @ [0x5D])"
| "serialize (JObj ps) =
     Some ([0x7B]
       @ join (concat (map (\<lambda>(k, v).
           case serialize v of None \<Rightarrow> [] | Some s \<Rightarrow> [quote k @ [0x3A] @ s]) ps))
       @ [0x7D])"

definition example_platform :: "jsval list \<Rightarrow> platform" where
  "example_platform known =
     \<lparr>JSON_stringify = (\<lambda>v. case serialize v of None \<Rightarrow> [] | Some s \<Rightarrow> s),
      JSON_parse = (\<lambda>b. find (\<lambda>v. serialize v = Some b) known)\<rparr>"

text \<open>A handle for \<open>https://localhost:4443\<close>, and a server answer \<open>{"id": v}\<close>.\<close>

definition example_session :: "SessionProperties option \<Rightarrow> Session" where
  "example_session ps = constructor (js ''localhost'') 4443 (js ''Basic T1BFTlZJRFVBUFA6c2VjcmV0'') ps"

definition id_object :: "jsval \<Rightarrow> jsval" where
  "id_object v = JObj [(js ''id'', v)]"

definition id_body :: "jsval \<Rightarrow> jstring" where
  "id_body v = (case serialize (id_object v) of None \<Rightarrow> [] | Some s \<Rightarrow> s)"

section \<open>Evaluation rules for the examples\<close>

lemmas example_defs =
  example_platform_def example_session_def constructor_def empty_properties_def
  empty_options_def js_def quote_def id_object_def id_body_def
  MediaMode_ROUTED_def RecordingMode_MANUAL_def RecordingLayout_BEST_FIT_def
  OpenViduRole_PUBLISHER_def is_high_surrogate_def is_low_surrogate_def unit_bytes_def
  getSessionId_def generateToken_def getSessionId_on_end_def generateToken_on_end_def
  on_error_def on_data_def settle_def in_flight_def run_def requests_def start_def
  API_SESSIONS_def API_TOKENS_def List.map_filter_def Let_def

section \<open>The byte length of a string\<close>

lemma unit_bytes_pos: "1 \<le> unit_bytes u"
  by (simp add: unit_bytes_def)

lemma unit_bytes_ascii: "u < 0x80 \<Longrightarrow> unit_bytes u = 1"
  by (simp add: unit_bytes_def)

lemma unit_bytes_wide: "0x80 \<le> u \<Longrightarrow> 2 \<le> unit_bytes u"
  by (simp add: unit_bytes_def not_less [symmetric])

lemma high_surrogate_wide: "is_high_surrogate u \<Longrightarrow> 0x80 \<le> u"
  by (simp add: is_high_surrogate_def word_le_nat_alt)

lemma length_le_byteLength: "length s \<le> Buffer_byteLength s"
proof (induction s rule: Buffer_byteLength.induct)
  case 1
  show ?case by simp
next
  case (2 u)
  show ?case using unit_bytes_pos [of u] by simp
next
  case (3 u v us)
  show ?case
  proof (cases "is_high_surrogate u \<and> is_low_surrogate v")
    case True
    with 3 show ?thesis by simp
  next
    case False
    with 3 unit_bytes_pos [of u] show ?thesis by auto
  qed
qed

lemma ascii_byteLength: "\<forall>u\<in>set s. u < 0x80 \<Longrightarrow> Buffer_byteLength s = length s"
proof (induction s rule: Buffer_byteLength.induct)
  case 1
  show ?case by simp
next
  case (2 u)
  then show ?case by (simp add: unit_bytes_ascii)
next
  case (3 u v us)
  have "\<not> is_high_surrogate u"
    using 3(3) high_surrogate_wide [of u] by (auto simp: not_less [symmetric])
  with 3 show ?case by (simp add: unit_bytes_ascii)
qed

lemma wide_byteLength: "\<exists>u\<in>set s. 0x80 \<le> u \<Longrightarrow> length s < Buffer_byteLength s"
proof (induction s rule: Buffer_byteLength.induct)
  case 1
  then show ?case by simp
next
  case (2 u)
  then show ?case using unit_bytes_wide [of u] by simp
next
  case (3 u v us)
  show ?case
  proof (cases "is_high_surrogate u \<and> is_low_surrogate v")
    case True
    then show ?thesis using length_le_byteLength [of us] by simp
  next
    case False
    show ?thesis
    proof (cases "0x80 \<le> u")
      case True
      then show ?thesis
        using False unit_bytes_wide [of u] length_le_byteLength [of "v # us"] by auto
    next
      case wide: False
      with 3(3) have "\<exists>x\<in>set (v # us). 0x80 \<le> x" by auto
      with 3(2) False have "length (v # us) < Buffer_byteLength (v # us)" by simp
      then show ?thesis using False unit_bytes_pos [of u] by auto
    qed
  qed
qed

section \<open>The requests a run sends\<close>

lemma map_filter_via_map: "List.map_filter f xs = map the (filter (\<lambda>y. y \<noteq> None) (map f xs))"
  by (induction xs) (auto simp: List.map_filter_simps split: option.splits)

lemma map_request_settle:
  "map request ((cs)[i := (cs ! i)\<lparr>promise := p\<rparr>]) = map request cs"
proof (cases "i < length cs")
  case True
  then show ?thesis by (simp add: map_update list_update_same_conv)
next
  case False
  then show ?thesis by (simp add: list_update_beyond)
qed

lemma requests_settle: "requests (settle i p w) = requests w"
  by (simp add: requests_def settle_def map_filter_via_map map_request_settle)

lemma requests_uncaught: "requests (w\<lparr>uncaught := u\<rparr>) = requests w"
  by (simp add: requests_def)

lemma requests_handle: "requests (w\<lparr>handle := h\<rparr>) = requests w"
  by (simp add: requests_def)

lemma handle_settle: "handle (settle i p w) = handle w"
  by (simp add: settle_def)

lemma requests_Call_getSessionId:
  "requests (step P Call_getSessionId w) = requests w @ [snd (getSessionId P (handle w))]"
  by (simp add: requests_def List.map_filter_def split: prod.splits)

lemma requests_Call_generateToken:
  "requests (step P (Call_generateToken t) w) =
     requests w @ (case snd (generateToken P t (handle w)) of None \<Rightarrow> [] | Some r \<Rightarrow> [r])"
  by (simp add: requests_def List.map_filter_def split: prod.splits option.splits)

lemma requests_End: "requests (step P (End i statusCode chunks) w) = requests w"
  by (simp add: requests_settle requests_uncaught requests_handle
      split: operation.splits sum.splits prod.splits)

lemma requests_Err: "requests (step P (Err i e) w) = requests w"
  by (simp add: requests_settle)

lemma getSessionId_Content_Length:
  "Content_Length (headers (options (snd (getSessionId P this)))) =
     Buffer_byteLength (written (snd (getSessionId P this)))"
  by (simp add: getSessionId_def Let_def)

lemma generateToken_Content_Length:
  "snd (generateToken P t this) = Some r \<Longrightarrow>
     Content_Length (headers (options r)) = Buffer_byteLength (written r)"
  by (auto simp: generateToken_def Let_def split: option.splits)

lemma Content_Length_step:
  assumes "\<forall>r\<in>set (requests w). Content_Length (headers (options r)) = Buffer_byteLength (written r)"
  shows "\<forall>r\<in>set (requests (step P ev w)).
           Content_Length (headers (options r)) = Buffer_byteLength (written r)"
proof (cases ev)
  case Call_getSessionId
  with assms show ?thesis
    by (auto simp: requests_Call_getSessionId getSessionId_Content_Length simp del: step.simps)
next
  case (Call_generateToken t)
  with assms show ?thesis
    by (auto simp: requests_Call_generateToken generateToken_Content_Length
        simp del: step.simps split: option.splits)
next
  case (End i statusCode chunks)
  with assms show ?thesis by (simp only: requests_End)
next
  case (Err i e)
  with assms show ?thesis by (simp only: requests_Err)
qed

lemma Content_Length_run:
  "\<forall>r\<in>set (requests w). Content_Length (headers (options r)) = Buffer_byteLength (written r) \<Longrightarrow>
   \<forall>r\<in>set (requests (run P es w)).
     Content_Length (headers (options r)) = Buffer_byteLength (written r)"
proof (induction es arbitrary: w)
  case Nil
  then show ?case by (simp add: run_def)
next
  case (Cons ev es)
  from Cons.prems have "\<forall>r\<in>set (requests (step P ev w)).
      Content_Length (headers (options r)) = Buffer_byteLength (written r)"
    by (rule Content_Length_step)
  then have "\<forall>r\<in>set (requests (run P es (step P ev w))).
      Content_Length (headers (options r)) = Buffer_byteLength (written r)"
    by (rule Cons.IH)
  then show ?case by (simp add: run_def)
qed


section \<open>Content-Length\<close>

text \<open>
  Claim C7. Every request sent by \<open>getSessionId\<close> or \<open>generateToken\<close>, in any run of
  calls and responses on a handle, carries in its \<open>Content-Length\<close> header the UTF-8 byte
  length of the body written, not the number of its code units: when the body has a
  code unit outside ASCII, the header is strictly greater than the body's length.
\<close>

theorem content_length_is_byte_length:
  assumes "r \<in> set (requests (run P es (start this)))"
  shows "Content_Length (headers (options r)) = Buffer_byteLength (written r)
       \<and> ((\<exists>u\<in>set (written r). 0x80 \<le> u) \<longrightarrow>
            length (written r) < Content_Length (headers (options r)))"
proof -
  have "\<forall>r\<in>set (requests (start this)).
      Content_Length (headers (options r)) = Buffer_byteLength (written r)"
    by (simp add: requests_def start_def)
  then have "\<forall>r\<in>set (requests (run P es (start this))).
      Content_Length (headers (options r)) = Buffer_byteLength (written r)"
    by (rule Content_Length_run)
  with assms have eq: "Content_Length (headers (options r)) = Buffer_byteLength (written r)"
    by blast
  then show ?thesis using wide_byteLength [of "written r"] by simp
qed

theorem content_length_is_byte_length_witness:
  "(let P = example_platform [];
        this = example_session (Some (empty_properties\<lparr>defaultCustomLayout := JStr [0xE9]\<rparr>));
        r = snd (getSessionId P this)
    in r \<in> set (requests (run P [Call_getSessionId] (start this)))
       \<and> (\<exists>u\<in>set (written r). 0x80 \<le> u)
       \<and> length (written r) = 109
       \<and> Content_Length (headers (options r)) = 110
       \<and> Content_Length (headers (options r)) = Buffer_byteLength (written r)
       \<and> length (written r) < Content_Length (headers (options r)))"
proof -
  let ?P = "example_platform []"
  let ?this = "example_session (Some (empty_properties\<lparr>defaultCustomLayout := JStr [0xE9]\<rparr>))"
  let ?r = "snd (getSessionId ?P ?this)"
  have mem: "?r \<in> set (requests (run ?P [Call_getSessionId] (start ?this)))"
    by (simp add: run_def requests_Call_getSessionId start_def del: step.simps)
  have wide: "\<exists>u\<in>set (written ?r). 0x80 \<le> u"
    by (simp add: example_defs)
  have len: "length (written ?r) = 109"
    by (simp add: example_defs)
  have hdr: "Content_Length (headers (options ?r)) = 110"
    by (simp add: example_defs)
  from content_length_is_byte_length [OF mem] wide
  have "Content_Length (headers (options ?r)) = Buffer_byteLength (written ?r)
      \<and> length (written ?r) < Content_Length (headers (options ?r))"
    by blast
  with mem wide len hdr show ?thesis
    unfolding Let_def by blast
qed

section \<open>What a call does\<close>

lemma js_empty [simp]: "js [] = []"
  by (simp add: js_def)

lemma getSessionId_promise:
  "fst (getSessionId P this) =
     (if truthy (sessionId this) then Resolved (sessionId this) else Pending)"
  by (simp add: getSessionId_def Let_def)

lemma handle_step_Call_getSessionId: "handle (step P Call_getSessionId w) = handle w"
  by (simp split: prod.splits)

lemma handle_step_Call_generateToken: "handle (step P (Call_generateToken t) w) = handle w"
  by (simp split: prod.splits)

lemma calls_step_Call_getSessionId:
  "calls (step P Call_getSessionId w) =
     calls w @ [\<lparr>operation = GetSessionId, promise = fst (getSessionId P (handle w)),
                 request = Some (snd (getSessionId P (handle w)))\<rparr>]"
  by (simp split: prod.splits)

lemma calls_step_Call_generateToken:
  "calls (step P (Call_generateToken t) w) =
     calls w @ [\<lparr>operation = GenerateToken, promise = fst (generateToken P t (handle w)),
                 request = snd (generateToken P t (handle w))\<rparr>]"
  by (simp split: prod.splits)

lemma written_getSessionId:
  "written (snd (getSessionId P this)) =
     JSON_stringify P (JObj
       [(js ''mediaMode'',
           if truthy (mediaMode (properties this))
           then mediaMode (properties this) else MediaMode_ROUTED),
        (js ''recordingMode'',
           if truthy (recordingMode (properties this))
           then recordingMode (properties this) else RecordingMode_MANUAL),
        (js ''defaultRecordingLayout'',
           if truthy (defaultRecordingLayout (properties this))
           then defaultRecordingLayout (properties this) else RecordingLayout_BEST_FIT),
        (js ''defaultCustomLayout'',
           if truthy (defaultCustomLayout (properties this))
           then defaultCustomLayout (properties this) else JStr [])])"
  by (simp add: getSessionId_def Let_def)


lemma generateToken_Some:
  "generateToken P (Some t) this =
     (Pending,
      Some \<lparr>options =
              \<lparr>opt_hostname = hostname this, opt_port = port this, path = API_TOKENS,
               opt_method = js ''POST'',
               headers =
                 \<lparr>Authorization = basicAuth this, Content_Type = js ''application/json'',
                  Content_Length = Buffer_byteLength (JSON_stringify P (JObj
                    [(js ''session'', sessionId this),
                     (js ''role'', if truthy (role t) then role t else OpenViduRole_PUBLISHER),
                     (js ''data'', if truthy (data t) then data t else JStr [])]))\<rparr>\<rparr>,
            written = JSON_stringify P (JObj
              [(js ''session'', sessionId this),
               (js ''role'', if truthy (role t) then role t else OpenViduRole_PUBLISHER),
               (js ''data'', if truthy (data t) then data t else JStr [])])\<rparr>)"
  by (simp add: generateToken_def Let_def)


section \<open>Token generation without options\<close>

text \<open>
  Claim C2. \<open>generateToken\<close> called with no options argument applies no defaults: the
  read of \<open>tokenOptions.role\<close> throws a \<open>TypeError\<close>, the promise is rejected with it,
  no request is sent and the handle is left as it was.
\<close>

theorem generateToken_without_options:
  "generateToken P None this = (Rejected TypeError, None)
   \<and> step P (Call_generateToken None) w =
       w\<lparr>calls := calls w @
          [\<lparr>operation = GenerateToken, promise = Rejected TypeError, request = None\<rparr>]\<rparr>
   \<and> requests (step P (Call_generateToken None) w) = requests w
   \<and> handle (step P (Call_generateToken None) w) = handle w"
  by (simp add: generateToken_def requests_def List.map_filter_def)


section \<open>Defaults in the request bodies\<close>

text \<open>
  Claim C5. On a handle built with no properties, or with the empty object, the one
  request that \<open>getSessionId\<close> sends has as its body the serialization of
  \<open>{mediaMode: "ROUTED", recordingMode: "MANUAL", defaultRecordingLayout: "BEST_FIT",
  defaultCustomLayout: ""}\<close>. On any handle the body is the serialization of an object
  with these four keys in this order, where each field left unset has its default and
  each truthy field has the caller's value.
\<close>

theorem default_substitution:
  "map written (requests (run P [Call_getSessionId] (start (constructor hn pt au None)))) =
     [JSON_stringify P (JObj
        [(js ''mediaMode'', JStr (js ''ROUTED'')),
         (js ''recordingMode'', JStr (js ''MANUAL'')),
         (js ''defaultRecordingLayout'', JStr (js ''BEST_FIT'')),
         (js ''defaultCustomLayout'', JStr (js ''''))])]
   \<and> map written
        (requests (run P [Call_getSessionId] (start (constructor hn pt au (Some empty_properties))))) =
     [JSON_stringify P (JObj
        [(js ''mediaMode'', JStr (js ''ROUTED'')),
         (js ''recordingMode'', JStr (js ''MANUAL'')),
         (js ''defaultRecordingLayout'', JStr (js ''BEST_FIT'')),
         (js ''defaultCustomLayout'', JStr (js ''''))])]
   \<and> (\<exists>m r l c.
        map written (requests (run P [Call_getSessionId] (start this))) =
          [JSON_stringify P (JObj
             [(js ''mediaMode'', m), (js ''recordingMode'', r),
              (js ''defaultRecordingLayout'', l), (js ''defaultCustomLayout'', c)])]
        \<and> (mediaMode (properties this) = JUndefined \<longrightarrow> m = JStr (js ''ROUTED''))
        \<and> (recordingMode (properties this) = JUndefined \<longrightarrow> r = JStr (js ''MANUAL''))
        \<and> (defaultRecordingLayout (properties this) = JUndefined \<longrightarrow> l = JStr (js ''BEST_FIT''))
        \<and> (defaultCustomLayout (properties this) = JUndefined \<longrightarrow> c = JStr (js ''''))
        \<and> (truthy (mediaMode (properties this)) \<longrightarrow> m = mediaMode (properties this))
        \<and> (truthy (recordingMode (properties this)) \<longrightarrow> r = recordingMode (properties this))
        \<and> (truthy (defaultRecordingLayout (properties this)) \<longrightarrow>
              l = defaultRecordingLayout (properties this))
        \<and> (truthy (defaultCustomLayout (properties this)) \<longrightarrow>
              c = defaultCustomLayout (properties this)))"
proof (intro conjI)
  have run1: "\<And>this. map written (requests (run P [Call_getSessionId] (start this))) =
      [written (snd (getSessionId P this))]"
    by (simp add: run_def requests_Call_getSessionId del: step.simps)
      (simp add: start_def requests_def)
  show "map written (requests (run P [Call_getSessionId] (start (constructor hn pt au None)))) =
     [JSON_stringify P (JObj
        [(js ''mediaMode'', JStr (js ''ROUTED'')),
         (js ''recordingMode'', JStr (js ''MANUAL'')),
         (js ''defaultRecordingLayout'', JStr (js ''BEST_FIT'')),
         (js ''defaultCustomLayout'', JStr (js ''''))])]"
    unfolding run1 written_getSessionId
    by (simp add: constructor_def empty_properties_def MediaMode_ROUTED_def
        RecordingMode_MANUAL_def RecordingLayout_BEST_FIT_def)
  show "map written
        (requests (run P [Call_getSessionId] (start (constructor hn pt au (Some empty_properties))))) =
     [JSON_stringify P (JObj
        [(js ''mediaMode'', JStr (js ''ROUTED'')),
         (js ''recordingMode'', JStr (js ''MANUAL'')),
         (js ''defaultRecordingLayout'', JStr (js ''BEST_FIT'')),
         (js ''defaultCustomLayout'', JStr (js ''''))])]"
    unfolding run1 written_getSessionId
    by (simp add: constructor_def empty_properties_def MediaMode_ROUTED_def
        RecordingMode_MANUAL_def RecordingLayout_BEST_FIT_def)
  show "\<exists>m r l c.
        map written (requests (run P [Call_getSessionId] (start this))) =
          [JSON_stringify P (JObj
             [(js ''mediaMode'', m), (js ''recordingMode'', r),
              (js ''defaultRecordingLayout'', l), (js ''defaultCustomLayout'', c)])]
        \<and> (mediaMode (properties this) = JUndefined \<longrightarrow> m = JStr (js ''ROUTED''))
        \<and> (recordingMode (properties this) = JUndefined \<longrightarrow> r = JStr (js ''MANUAL''))
        \<and> (defaultRecordingLayout (properties this) = JUndefined \<longrightarrow> l = JStr (js ''BEST_FIT''))
        \<and> (defaultCustomLayout (properties this) = JUndefined \<longrightarrow> c = JStr (js ''''))
        \<and> (truthy (mediaMode (properties this)) \<longrightarrow> m = mediaMode (properties this))
        \<and> (truthy (recordingMode (properties this)) \<longrightarrow> r = recordingMode (properties this))
        \<and> (truthy (defaultRecordingLayout (properties this)) \<longrightarrow>
              l = defaultRecordingLayout (properties this))
        \<and> (truthy (defaultCustomLayout (properties this)) \<longrightarrow>
              c = defaultCustomLayout (properties this))"
    unfolding run1 written_getSessionId
    apply (rule exI [of _ "if truthy (mediaMode (properties this))
                then mediaMode (properties this) else MediaMode_ROUTED"])
    apply (rule exI [of _ "if truthy (recordingMode (properties this))
                then recordingMode (properties this) else RecordingMode_MANUAL"])
    apply (rule exI [of _ "if truthy (defaultRecordingLayout (properties this))
                then defaultRecordingLayout (properties this) else RecordingLayout_BEST_FIT"])
    apply (rule exI [of _ "if truthy (defaultCustomLayout (properties this))
                then defaultCustomLayout (properties this) else JStr []"])
    apply (simp add: MediaMode_ROUTED_def RecordingMode_MANUAL_def RecordingLayout_BEST_FIT_def)
    done
qed

theorem default_substitution_witness:
  "(let P = example_platform [];
        this = example_session (Some (empty_properties\<lparr>recordingMode := JStr (js ''ALWAYS'')\<rparr>))
    in mediaMode (properties this) = JUndefined
       \<and> truthy (recordingMode (properties this))
       \<and> defaultRecordingLayout (properties this) = JUndefined
       \<and> defaultCustomLayout (properties this) = JUndefined
       \<and> map written (requests (run P [Call_getSessionId] (start this))) =
           [js ''{\"mediaMode\":\"ROUTED\",\"recordingMode\":\"ALWAYS\",\"defaultRecordingLayout\":\"BEST_FIT\",\"defaultCustomLayout\":\"\"}''])"
proof -
  let ?P = "example_platform []"
  let ?h = "example_session (Some (empty_properties\<lparr>recordingMode := JStr (js ''ALWAYS'')\<rparr>))"
  have unset: "mediaMode (properties ?h) = JUndefined"
    "defaultRecordingLayout (properties ?h) = JUndefined"
    "defaultCustomLayout (properties ?h) = JUndefined"
    by (simp_all add: example_session_def constructor_def empty_properties_def)
  have given: "truthy (recordingMode (properties ?h))"
    "recordingMode (properties ?h) = JStr (js ''ALWAYS'')"
    by (simp_all add: example_session_def constructor_def empty_properties_def js_def)
  from default_substitution [of ?P "[]" 0 "[]" ?h] obtain m r l c where
    body: "map written (requests (run ?P [Call_getSessionId] (start ?h))) =
          [JSON_stringify ?P (JObj
             [(js ''mediaMode'', m), (js ''recordingMode'', r),
              (js ''defaultRecordingLayout'', l), (js ''defaultCustomLayout'', c)])]"
    and m: "mediaMode (properties ?h) = JUndefined \<longrightarrow> m = JStr (js ''ROUTED'')"
    and l: "defaultRecordingLayout (properties ?h) = JUndefined \<longrightarrow> l = JStr (js ''BEST_FIT'')"
    and c: "defaultCustomLayout (properties ?h) = JUndefined \<longrightarrow> c = JStr (js '''')"
    and r: "truthy (recordingMode (properties ?h)) \<longrightarrow> r = recordingMode (properties ?h)"
    by (elim conjE exE) (rule that, assumption+)
  from m l c r unset given have
    "m = JStr (js ''ROUTED'')" "r = JStr (js ''ALWAYS'')" "l = JStr (js ''BEST_FIT'')" "c = JStr []"
    by simp_all
  with body have "map written (requests (run ?P [Call_getSessionId] (start ?h))) =
      [js ''{\"mediaMode\":\"ROUTED\",\"recordingMode\":\"ALWAYS\",\"defaultRecordingLayout\":\"BEST_FIT\",\"defaultCustomLayout\":\"\"}'']"
    by (simp add: example_platform_def js_def quote_def)
  with unset given show ?thesis
    unfolding Let_def by blast
qed


text \<open>
  Claim C6. \<open>generateToken\<close> called with the empty object \<open>{}\<close> sends a request whose
  body is the serialization of \<open>{session: sessionId, role: "PUBLISHER", data: ""}\<close>, with
  the handle's current \<open>sessionId\<close>. With any options object, an unset \<open>role\<close> becomes
  \<open>"PUBLISHER"\<close> and an unset \<open>data\<close> the empty string; truthy values are passed on.
\<close>

theorem default_token_options:
  "(\<exists>r. generateToken P (Some empty_options) this = (Pending, Some r)
        \<and> written r = JSON_stringify P (JObj
            [(js ''session'', sessionId this),
             (js ''role'', JStr (js ''PUBLISHER'')),
             (js ''data'', JStr (js ''''))]))
   \<and> (\<exists>r ro da. generateToken P (Some t) this = (Pending, Some r)
        \<and> written r = JSON_stringify P (JObj
            [(js ''session'', sessionId this), (js ''role'', ro), (js ''data'', da)])
        \<and> (role t = JUndefined \<longrightarrow> ro = JStr (js ''PUBLISHER''))
        \<and> (data t = JUndefined \<longrightarrow> da = JStr (js ''''))
        \<and> (truthy (role t) \<longrightarrow> ro = role t)
        \<and> (truthy (data t) \<longrightarrow> da = data t))"
proof (rule conjI)
  show "\<exists>r. generateToken P (Some empty_options) this = (Pending, Some r)
        \<and> written r = JSON_stringify P (JObj
            [(js ''session'', sessionId this),
             (js ''role'', JStr (js ''PUBLISHER'')),
             (js ''data'', JStr (js ''''))])"
    by (simp add: generateToken_Some empty_options_def OpenViduRole_PUBLISHER_def)
  show "\<exists>r ro da. generateToken P (Some t) this = (Pending, Some r)
        \<and> written r = JSON_stringify P (JObj
            [(js ''session'', sessionId this), (js ''role'', ro), (js ''data'', da)])
        \<and> (role t = JUndefined \<longrightarrow> ro = JStr (js ''PUBLISHER''))
        \<and> (data t = JUndefined \<longrightarrow> da = JStr (js ''''))
        \<and> (truthy (role t) \<longrightarrow> ro = role t)
        \<and> (truthy (data t) \<longrightarrow> da = data t)"
    apply (rule exI [of _ "the (snd (generateToken P (Some t) this))"])
    apply (rule exI [of _ "if truthy (role t) then role t else OpenViduRole_PUBLISHER"])
    apply (rule exI [of _ "if truthy (data t) then data t else JStr []"])
    apply (auto simp: generateToken_Some OpenViduRole_PUBLISHER_def)
    done
qed

theorem default_token_options_witness:
  "(let P = example_platform [];
        this = (example_session None)\<lparr>sessionId := JStr (js ''ses_A1'')\<rparr>;
        t = empty_options\<lparr>data := JStr (js ''user-7'')\<rparr>
    in role t = JUndefined \<and> truthy (data t)
       \<and> map written (requests (run P [Call_generateToken (Some t)] (start this))) =
           [js ''{\"session\":\"ses_A1\",\"role\":\"PUBLISHER\",\"data\":\"user-7\"}''])"
proof -
  let ?P = "example_platform []"
  let ?h = "(example_session None)\<lparr>sessionId := JStr (js ''ses_A1'')\<rparr>"
  let ?t = "empty_options\<lparr>data := JStr (js ''user-7'')\<rparr>"
  have opts: "role ?t = JUndefined" "truthy (data ?t)" "data ?t = JStr (js ''user-7'')"
    by (simp_all add: empty_options_def js_def)
  from default_token_options [of ?P ?h ?t] obtain r ro da where
    tok: "generateToken ?P (Some ?t) ?h = (Pending, Some r)"
    and body: "written r = JSON_stringify ?P (JObj
            [(js ''session'', sessionId ?h), (js ''role'', ro), (js ''data'', da)])"
    and ro: "role ?t = JUndefined \<longrightarrow> ro = JStr (js ''PUBLISHER'')"
    and da: "truthy (data ?t) \<longrightarrow> da = data ?t"
    by (elim conjE exE) (rule that, assumption+)
  from ro da opts have "ro = JStr (js ''PUBLISHER'')" "da = JStr (js ''user-7'')"
    by simp_all
  with body have "written r = js ''{\"session\":\"ses_A1\",\"role\":\"PUBLISHER\",\"data\":\"user-7\"}''"
    by (simp add: example_platform_def js_def quote_def)
  moreover have "map written (requests (run ?P [Call_generateToken (Some ?t)] (start ?h))) =
      [written r]"
    using tok
    by (simp add: run_def requests_Call_generateToken del: step.simps)
      (simp add: start_def requests_def)
  ultimately show ?thesis
    using opts unfolding Let_def by simp
qed

section \<open>Single steps of the event loop\<close>

declare step.simps [simp del]

lemma calls_settle: "calls (settle i p w) = (calls w)[i := (calls w ! i)\<lparr>promise := p\<rparr>]"
  by (simp add: settle_def)

lemma uncaught_settle: "uncaught (settle i p w) = uncaught w"
  by (simp add: settle_def)

lemma promise_settle_same:
  "i < length (calls w) \<Longrightarrow> promise (calls (settle i p w) ! i) = p"
  by (simp add: settle_def)

lemma promise_settle_other:
  "j \<noteq> i \<Longrightarrow> promise (calls (settle i p w) ! j) = promise (calls w ! j)"
  by (simp add: settle_def)

lemma in_flight_settle: "in_flight j (settle i p w) = in_flight j w"
  by (cases "j = i") (auto simp: in_flight_def settle_def)

lemma operation_settle: "operation (calls (settle i p w) ! j) = operation (calls w ! j)"
  by (cases "j = i"; cases "i < length (calls w)") (simp_all add: settle_def list_update_beyond)

lemma step_End_non200:
  assumes "in_flight i w" and "statusCode \<noteq> 200"
  shows "step P (End i statusCode chunks) w =
           settle i (reject (Error statusCode) (promise (calls w ! i))) w"
  using assms
  by (cases "operation (calls w ! i)")
    (simp_all add: step.simps getSessionId_on_end_def generateToken_on_end_def)

lemma step_End_getSessionId_200:
  assumes "in_flight i w" and "operation (calls w ! i) = GetSessionId"
    and "JSON_parse P (on_data chunks) = Some parsed" and "get_id parsed = Inr v"
  shows "step P (End i 200 chunks) w =
           settle i (resolve v (promise (calls w ! i)))
             (w\<lparr>handle := (handle w)\<lparr>sessionId := v\<rparr>\<rparr>)"
  using assms by (simp add: step.simps getSessionId_on_end_def)

lemma step_End_generateToken_200:
  assumes "in_flight i w" and "operation (calls w ! i) = GenerateToken"
    and "JSON_parse P (on_data chunks) = Some parsed" and "get_id parsed = Inr v"
  shows "step P (End i 200 chunks) w = settle i (resolve v (promise (calls w ! i))) w"
  using assms by (simp add: step.simps generateToken_on_end_def)

lemma in_flight_handle: "in_flight j (w\<lparr>handle := h\<rparr>) = in_flight j w"
  by (simp add: in_flight_def)

lemma run_Nil: "run P [] w = w"
  by (simp add: run_def)

lemma run_Cons: "run P (ev # es) w = run P es (step P ev w)"
  by (simp add: run_def)

lemma handle_step_Err: "handle (step P (Err i e) w) = handle w"
  by (simp add: step.simps handle_settle)

lemma handle_step_End_non200:
  "statusCode \<noteq> 200 \<Longrightarrow> handle (step P (End i statusCode chunks) w) = handle w"
  by (cases "in_flight i w") (simp_all add: step_End_non200 handle_settle, simp add: step.simps)

lemma handle_step_End_generateToken:
  "operation (calls w ! i) = GenerateToken \<Longrightarrow>
     handle (step P (End i statusCode chunks) w) = handle w"
  by (simp add: step.simps handle_settle split: sum.splits)

lemma handle_step_changes:
  assumes "handle (step P ev w) \<noteq> handle w"
  shows "\<exists>i chunks. ev = End i 200 chunks \<and> in_flight i w
           \<and> operation (calls w ! i) = GetSessionId"
proof (cases ev)
  case Call_getSessionId
  with assms show ?thesis by (simp add: handle_step_Call_getSessionId)
next
  case (Call_generateToken t)
  with assms show ?thesis by (simp add: handle_step_Call_generateToken)
next
  case (End i statusCode chunks)
  with assms have "statusCode = 200"
    using handle_step_End_non200 [of statusCode P i chunks w] by blast
  moreover have "in_flight i w"
  proof (rule ccontr)
    assume "\<not> in_flight i w"
    with End have "step P ev w = w" by (simp add: step.simps)
    with assms show False by simp
  qed
  moreover from End assms have "operation (calls w ! i) = GetSessionId"
    using handle_step_End_generateToken [of w i P statusCode chunks]
    by (cases "operation (calls w ! i)") simp_all
  ultimately show ?thesis using End by simp
next
  case (Err i e)
  with assms show ?thesis by (simp add: handle_step_Err)
qed

lemma rejecting_step_keeps_handle:
  assumes "j < length (calls w)" and "promise (calls w ! j) = Pending"
    and "promise (calls (step P ev w) ! j) = Rejected f"
  shows "handle (step P ev w) = handle w"
proof (rule ccontr)
  assume "handle (step P ev w) \<noteq> handle w"
  then obtain i chunks where ev: "ev = End i 200 chunks" and fl: "in_flight i w"
    and op: "operation (calls w ! i) = GetSessionId"
    using handle_step_changes by blast
  show False
  proof (cases "getSessionId_on_end P 200 (on_data chunks) (handle w) (promise (calls w ! i))")
    case (Inl e)
    with ev fl op assms show False by (simp add: step.simps)
  next
    case (Inr hp)
    then obtain v where hp: "hp = ((handle w)\<lparr>sessionId := v\<rparr>, resolve v (promise (calls w ! i)))"
      by (auto simp: getSessionId_on_end_def split: option.splits sum.splits)
    have "step P ev w = settle i (resolve v (promise (calls w ! i)))
        (w\<lparr>handle := (handle w)\<lparr>sessionId := v\<rparr>\<rparr>)"
      using ev fl op Inr hp by (simp add: step.simps)
    with assms show False
      by (cases "j = i") (simp_all add: settle_def)
  qed
qed

lemma End_non200_rejects_pending:
  assumes "in_flight i w" and "promise (calls w ! i) = Pending" and "statusCode \<noteq> 200"
  shows "promise (calls (step P (End i statusCode chunks) w) ! i) = Rejected (Error statusCode)"
  using assms by (simp add: step_End_non200 in_flight_def promise_settle_same)

lemma getSessionId_call_world:
  fixes P :: platform and w :: world
  defines "n \<equiv> length (calls w)"
  defines "w1 \<equiv> step P Call_getSessionId w"
  shows "handle w1 = handle w"
    and "uncaught w1 = uncaught w"
    and "length (calls w1) = Suc n"
    and "in_flight n w1"
    and "operation (calls w1 ! n) = GetSessionId"
    and "promise (calls w1 ! n) =
           (if truthy (sessionId (handle w)) then Resolved (sessionId (handle w)) else Pending)"
    and "requests w1 = requests w @ [snd (getSessionId P (handle w))]"
  unfolding n_def w1_def
  by (simp_all add: handle_step_Call_getSessionId calls_step_Call_getSessionId
      requests_Call_getSessionId getSessionId_promise in_flight_def)
    (simp add: step.simps split: prod.splits)

lemma getSessionId_first_call:
  fixes P :: platform and w :: world
  assumes unset: "\<not> truthy (sessionId (handle w))"
    and parse: "JSON_parse P (on_data chunks) = Some parsed" "get_id parsed = Inr v"
  defines "w2 \<equiv> run P [Call_getSessionId, End (length (calls w)) 200 chunks] w"
  shows "sessionId (handle w2) = v"
    and "promise (calls w2 ! length (calls w)) = Resolved v"
    and "length (calls w2) = Suc (length (calls w))"
    and "length (requests w2) = Suc (length (requests w))"
proof -
  let ?n = "length (calls w)"
  let ?w1 = "step P Call_getSessionId w"
  note w1 = getSessionId_call_world [where P = P and w = w]
  have pending: "promise (calls ?w1 ! ?n) = Pending"
    using w1(6) unset by simp
  have w2: "w2 = settle ?n (Resolved v) (?w1\<lparr>handle := (handle ?w1)\<lparr>sessionId := v\<rparr>\<rparr>)"
    unfolding w2_def run_Cons run_Nil
    using step_End_getSessionId_200 [OF w1(4) w1(5) parse] pending by simp
  show "sessionId (handle w2) = v"
    unfolding w2 by (simp add: handle_settle)
  show "promise (calls w2 ! ?n) = Resolved v"
    unfolding w2 using w1(3) by (simp add: settle_def)
  show "length (calls w2) = Suc ?n"
    unfolding w2 using w1(3) by (simp add: settle_def)
  show "length (requests w2) = Suc (length (requests w))"
    unfolding w2 using w1(7) by (simp add: requests_settle requests_handle)
qed

lemma getSessionId_cached_call:
  fixes P :: platform and w :: world
  assumes cached: "truthy (sessionId (handle w))"
  defines "n \<equiv> length (calls w)"
  defines "w1 \<equiv> step P Call_getSessionId w"
  shows "promise (calls w1 ! n) = Resolved (sessionId (handle w))"
    and "requests w1 = requests w @ [snd (getSessionId P (handle w))]"
    and "in_flight n w1"
    and "statusCode \<noteq> 200 \<Longrightarrow>
           promise (calls (step P (End n statusCode chunks) w1) ! n) =
             Resolved (sessionId (handle w))"
    and "JSON_parse P (on_data chunks) = Some parsed \<Longrightarrow> get_id parsed = Inr v \<Longrightarrow>
           sessionId (handle (step P (End n 200 chunks) w1)) = v
           \<and> promise (calls (step P (End n 200 chunks) w1) ! n) = Resolved (sessionId (handle w))"
proof -
  note w1 = getSessionId_call_world [where P = P and w = w, folded n_def w1_def]
  show resolved: "promise (calls w1 ! n) = Resolved (sessionId (handle w))"
    using w1(6) cached by simp
  show "requests w1 = requests w @ [snd (getSessionId P (handle w))]"
    by (rule w1(7))
  show "in_flight n w1"
    by (rule w1(4))
  have len: "n < length (calls w1)"
    using w1(3) by simp
  show "promise (calls (step P (End n statusCode chunks) w1) ! n) =
      Resolved (sessionId (handle w))" if "statusCode \<noteq> 200"
    using step_End_non200 [OF w1(4) that, of P chunks] resolved len
    by (simp add: promise_settle_same)
  show "sessionId (handle (step P (End n 200 chunks) w1)) = v
      \<and> promise (calls (step P (End n 200 chunks) w1) ! n) = Resolved (sessionId (handle w))"
    if "JSON_parse P (on_data chunks) = Some parsed" and "get_id parsed = Inr v"
    using step_End_getSessionId_200 [OF w1(4) w1(5) that] resolved len
    by (simp add: handle_settle settle_def)
qed

lemma start_empty:
  "handle (start this) = this" "calls (start this) = []" "uncaught (start this) = []"
  "requests (start this) = []"
  by (simp_all add: start_def requests_def)

lemma example_session_unset: "sessionId (example_session ps) = JUndefined"
  by (simp add: example_session_def constructor_def)

lemma run_two: "run P [e1, e2] w = step P e2 (step P e1 w)"
  by (simp add: run_def)

section \<open>Token generation on a handle without identifier\<close>

text \<open>
  Claim C8. \<open>generateToken\<close> performs no local check of \<open>sessionId\<close>: for every
  call, with or without options, the state of the promise and whether a request is sent
  do not depend on what the handle holds as \<open>sessionId\<close>. Called with an options object,
  whatever the handle holds, also \<open>undefined\<close>, the call serializes it as the \<open>session\<close>
  member of the body, sends the request to \<open>/api/tokens\<close> and leaves the promise
  pending; nothing is thrown. The failure comes only with the server's answer: a status
  other than 200 rejects the promise with that status.
\<close>

theorem generateToken_defers_validation:
  assumes "statusCode \<noteq> 200"
  shows "(fst (generateToken P tokenOptions (this\<lparr>sessionId := s\<rparr>)) =
            fst (generateToken P tokenOptions this)
          \<and> (snd (generateToken P tokenOptions (this\<lparr>sessionId := s\<rparr>)) = None) =
            (snd (generateToken P tokenOptions this) = None))
       \<and> (let i = length (calls w);
              w1 = step P (Call_generateToken (Some t)) w;
              w2 = step P (End i statusCode chunks) w1
          in (\<exists>r. requests w1 = requests w @ [r]
                  \<and> request (calls w1 ! i) = Some r
                  \<and> path (options r) = API_TOKENS
                  \<and> written r = JSON_stringify P (JObj
                       [(js ''session'', sessionId (handle w)),
                        (js ''role'', if truthy (role t) then role t else JStr (js ''PUBLISHER'')),
                        (js ''data'', if truthy (data t) then data t else JStr (js ''''))])
                  \<and> (sessionId (handle w) = JUndefined \<longrightarrow>
                       written r = JSON_stringify P (JObj
                         [(js ''session'', JUndefined),
                          (js ''role'', if truthy (role t) then role t else JStr (js ''PUBLISHER'')),
                          (js ''data'', if truthy (data t) then data t else JStr (js ''''))])))
             \<and> promise (calls w1 ! i) = Pending
             \<and> uncaught w1 = uncaught w
             \<and> handle w1 = handle w
             \<and> promise (calls w2 ! i) = Rejected (Error statusCode)
             \<and> uncaught w2 = uncaught w
             \<and> handle w2 = handle w)"
proof -
  let ?i = "length (calls w)"
  let ?w1 = "step P (Call_generateToken (Some t)) w"
  let ?w2 = "step P (End ?i statusCode chunks) ?w1"
  let ?r = "the (snd (generateToken P (Some t) (handle w)))"
  have calls1: "calls ?w1 = calls w @
      [\<lparr>operation = GenerateToken, promise = Pending, request = Some ?r\<rparr>]"
    by (simp add: calls_step_Call_generateToken generateToken_Some)
  have req: "requests ?w1 = requests w @ [?r]"
    by (simp add: requests_Call_generateToken generateToken_Some)
  have r: "request (calls ?w1 ! ?i) = Some ?r" "promise (calls ?w1 ! ?i) = Pending"
    by (simp_all add: calls1)
  have body: "path (options ?r) = API_TOKENS"
    "written ?r = JSON_stringify P (JObj
       [(js ''session'', sessionId (handle w)),
        (js ''role'', if truthy (role t) then role t else JStr (js ''PUBLISHER'')),
        (js ''data'', if truthy (data t) then data t else JStr (js ''''))])"
    by (simp_all add: generateToken_Some OpenViduRole_PUBLISHER_def)
  have same1: "uncaught ?w1 = uncaught w" "handle ?w1 = handle w"
    by (simp_all add: step.simps split: prod.splits)
  have fl: "in_flight ?i ?w1"
    by (simp add: in_flight_def calls1)
  have w2: "?w2 = settle ?i (Rejected (Error statusCode)) ?w1"
    using step_End_non200 [OF fl assms, of P chunks] r(2) by simp
  have len: "?i < length (calls ?w1)"
    by (simp add: calls1)
  have rej: "promise (calls ?w2 ! ?i) = Rejected (Error statusCode)"
    unfolding w2 using len by (rule promise_settle_same)
  have same2: "uncaught ?w2 = uncaught w" "handle ?w2 = handle w"
    unfolding w2 by (simp_all add: uncaught_settle handle_settle same1)
  have "\<exists>r. requests ?w1 = requests w @ [r]
            \<and> request (calls ?w1 ! ?i) = Some r
            \<and> path (options r) = API_TOKENS
            \<and> written r = JSON_stringify P (JObj
                 [(js ''session'', sessionId (handle w)),
                  (js ''role'', if truthy (role t) then role t else JStr (js ''PUBLISHER'')),
                  (js ''data'', if truthy (data t) then data t else JStr (js ''''))])
            \<and> (sessionId (handle w) = JUndefined \<longrightarrow>
                 written r = JSON_stringify P (JObj
                   [(js ''session'', JUndefined),
                    (js ''role'', if truthy (role t) then role t else JStr (js ''PUBLISHER'')),
                    (js ''data'', if truthy (data t) then data t else JStr (js ''''))]))"
    using req r(1) body by (intro exI [of _ ?r]) simp
  moreover have "fst (generateToken P tokenOptions (this\<lparr>sessionId := s\<rparr>)) =
      fst (generateToken P tokenOptions this)"
    by (cases tokenOptions) (simp_all add: generateToken_def Let_def)
  moreover have "(snd (generateToken P tokenOptions (this\<lparr>sessionId := s\<rparr>)) = None) =
      (snd (generateToken P tokenOptions this) = None)"
    by (cases tokenOptions) (simp_all add: generateToken_def Let_def)
  ultimately show ?thesis
    using r(2) same1 rej same2 unfolding Let_def by (intro conjI)
qed

theorem generateToken_defers_validation_witness:
  "(let P = example_platform [];
        w = start (example_session None);
        w1 = step P (Call_generateToken (Some empty_options)) w;
        w2 = step P (End 0 400 []) w1
    in (400::nat) \<noteq> 200
       \<and> sessionId (handle w) = JUndefined
       \<and> map written (requests w1) = [js ''{\"role\":\"PUBLISHER\",\"data\":\"\"}'']
       \<and> promise (calls w1 ! 0) = Pending
       \<and> promise (calls w2 ! 0) = Rejected (Error 400))"
proof -
  let ?P = "example_platform []"
  let ?w = "start (example_session None)"
  let ?w1 = "step ?P (Call_generateToken (Some empty_options)) ?w"
  let ?w2 = "step ?P (End 0 400 []) ?w1"
  have status: "(400::nat) \<noteq> 200" by simp
  have unset: "sessionId (handle ?w) = JUndefined"
    by (simp add: start_def example_session_def constructor_def)
  have none: "length (calls ?w) = 0" "requests ?w = []"
    by (simp_all add: start_def requests_def)
  from generateToken_defers_validation
    [OF status, where w = ?w and P = ?P and t = empty_options and chunks = "[]"
      and tokenOptions = None and this = "handle ?w" and s = JUndefined] none
  obtain r where req: "requests ?w1 = [r]"
    and body: "sessionId (handle ?w) = JUndefined \<longrightarrow>
         written r = JSON_stringify ?P (JObj
           [(js ''session'', JUndefined),
            (js ''role'', if truthy (role empty_options) then role empty_options
                          else JStr (js ''PUBLISHER'')),
            (js ''data'', if truthy (data empty_options) then data empty_options
                          else JStr (js ''''))])"
    and pending: "promise (calls ?w1 ! 0) = Pending"
    and rejected: "promise (calls ?w2 ! 0) = Rejected (Error 400)"
    unfolding Let_def by auto
  from body unset have "written r = js ''{\"role\":\"PUBLISHER\",\"data\":\"\"}''"
    by (simp add: example_platform_def empty_options_def js_def quote_def)
  with req have "map written (requests ?w1) = [js ''{\"role\":\"PUBLISHER\",\"data\":\"\"}'']"
    by simp
  with status unset pending rejected show ?thesis
    unfolding Let_def by (intro conjI)
qed

section \<open>Two overlapping calls of getSessionId\<close>

text \<open>
  Claim C9. Two calls of \<open>getSessionId\<close> are made while the handle has no identifier;
  each sends its own request. The responses carry the identifiers \<open>a\<close> and \<open>b\<close>, and
  the one with \<open>b\<close> is processed last, whichever of the two calls it answers. Then the
  handle ends with \<open>sessionId = b\<close>, and each promise is resolved with the identifier
  of its own response.
\<close>

theorem concurrent_getSessionId_race:
  assumes unset: "\<not> truthy (sessionId (handle w))"
    and first: "JSON_parse P (on_data chunks_a) = Some parsed_a" "get_id parsed_a = Inr a"
    and last: "JSON_parse P (on_data chunks_b) = Some parsed_b" "get_id parsed_b = Inr b"
    and xy: "(x = length (calls w) \<and> y = Suc (length (calls w)))
           \<or> (x = Suc (length (calls w)) \<and> y = length (calls w))"
  shows "(let w2 = run P [Call_getSessionId, Call_getSessionId] w;
              w4 = run P [End x 200 chunks_a, End y 200 chunks_b] w2
          in length (requests w2) = length (requests w) + 2
             \<and> promise (calls w2 ! x) = Pending
             \<and> promise (calls w2 ! y) = Pending
             \<and> sessionId (handle w4) = b
             \<and> promise (calls w4 ! x) = Resolved a
             \<and> promise (calls w4 ! y) = Resolved b)"
proof -
  let ?n = "length (calls w)"
  let ?w2 = "run P [Call_getSessionId, Call_getSessionId] w"
  let ?w3 = "step P (End x 200 chunks_a) ?w2"
  let ?w4 = "step P (End y 200 chunks_b) ?w3"
  let ?c = "\<lparr>operation = GetSessionId, promise = Pending,
             request = Some (snd (getSessionId P (handle w)))\<rparr>"
  have w2: "?w2 = step P Call_getSessionId (step P Call_getSessionId w)"
    by (simp add: run_Cons run_Nil)
  have calls2: "calls ?w2 = calls w @ [?c, ?c]"
    unfolding w2 using unset
    by (simp add: calls_step_Call_getSessionId handle_step_Call_getSessionId getSessionId_promise)
  have reqs2: "length (requests ?w2) = length (requests w) + 2"
    unfolding w2 by (simp add: requests_Call_getSessionId)
  have neq: "x \<noteq> y" and x: "x < length (calls ?w2)" and y: "y < length (calls ?w2)"
    using xy by (auto simp: calls2)
  have cx: "calls ?w2 ! x = ?c" and cy: "calls ?w2 ! y = ?c"
    using xy by (auto simp: calls2 nth_append)
  have fx: "in_flight x ?w2" and fy: "in_flight y ?w2"
    using x y by (simp_all add: in_flight_def cx cy)
  have w3: "?w3 = settle x (Resolved a) (?w2\<lparr>handle := (handle ?w2)\<lparr>sessionId := a\<rparr>\<rparr>)"
    using step_End_getSessionId_200 [OF fx _ first] by (simp add: cx)
  have fy3: "in_flight y ?w3"
    unfolding w3 using fy by (simp add: in_flight_settle in_flight_handle)
  have cy3: "operation (calls ?w3 ! y) = GetSessionId" "promise (calls ?w3 ! y) = Pending"
    unfolding w3 using neq by (simp_all add: operation_settle promise_settle_other cy)
  have w4: "?w4 = settle y (Resolved b) (?w3\<lparr>handle := (handle ?w3)\<lparr>sessionId := b\<rparr>\<rparr>)"
    using step_End_getSessionId_200 [OF fy3 cy3(1) last] by (simp add: cy3(2))
  have cache: "sessionId (handle ?w4) = b"
    unfolding w4 by (simp add: handle_settle)
  have py: "promise (calls ?w4 ! y) = Resolved b"
    unfolding w4 using y by (simp add: settle_def w3)
  have px3: "promise (calls ?w3 ! x) = Resolved a"
    unfolding w3 using x by (simp add: settle_def)
  have px: "promise (calls ?w4 ! x) = Resolved a"
    unfolding w4 using neq px3 by (simp add: settle_def)
  have "run P [End x 200 chunks_a, End y 200 chunks_b] ?w2 = ?w4"
    by (simp add: run_Cons run_Nil)
  with reqs2 cache px py cx cy show ?thesis
    unfolding Let_def by simp
qed

theorem concurrent_getSessionId_race_witness:
  "(let P = example_platform [id_object (JStr (js ''A'')), id_object (JStr (js ''B''))];
        w = start (example_session None);
        w2 = run P [Call_getSessionId, Call_getSessionId] w;
        w4 = run P [End 1 200 [id_body (JStr (js ''A''))], End 0 200 [id_body (JStr (js ''B''))]] w2
    in \<not> truthy (sessionId (handle w))
       \<and> JSON_parse P (on_data [id_body (JStr (js ''A''))]) = Some (id_object (JStr (js ''A'')))
       \<and> get_id (id_object (JStr (js ''A''))) = Inr (JStr (js ''A''))
       \<and> JSON_parse P (on_data [id_body (JStr (js ''B''))]) = Some (id_object (JStr (js ''B'')))
       \<and> get_id (id_object (JStr (js ''B''))) = Inr (JStr (js ''B''))
       \<and> length (requests w2) = 2
       \<and> sessionId (handle w4) = JStr (js ''B'')
       \<and> promise (calls w4 ! 1) = Resolved (JStr (js ''A''))
       \<and> promise (calls w4 ! 0) = Resolved (JStr (js ''B'')))"
proof -
  let ?P = "example_platform [id_object (JStr (js ''A'')), id_object (JStr (js ''B''))]"
  let ?w = "start (example_session None)"
  have unset: "\<not> truthy (sessionId (handle ?w))"
    by (simp add: start_def example_session_def constructor_def)
  have pa: "JSON_parse ?P (on_data [id_body (JStr (js ''A''))]) = Some (id_object (JStr (js ''A'')))"
    by (simp add: example_defs)
  have ga: "get_id (id_object (JStr (js ''A''))) = Inr (JStr (js ''A''))"
    by (simp add: id_object_def)
  have pb: "JSON_parse ?P (on_data [id_body (JStr (js ''B''))]) = Some (id_object (JStr (js ''B'')))"
    by (simp add: example_defs)
  have gb: "get_id (id_object (JStr (js ''B''))) = Inr (JStr (js ''B''))"
    by (simp add: id_object_def)
  have xy: "(1 = length (calls ?w) \<and> 0 = Suc (length (calls ?w)))
          \<or> (1 = Suc (length (calls ?w)) \<and> 0 = length (calls ?w))"
    by (simp add: start_def)
  have none: "length (requests ?w) = 0"
    by (simp add: start_def requests_def)
  from concurrent_getSessionId_race [OF unset pa ga pb gb xy] none
  have "(let w2 = run ?P [Call_getSessionId, Call_getSessionId] ?w;
             w4 = run ?P [End 1 200 [id_body (JStr (js ''A''))],
                          End 0 200 [id_body (JStr (js ''B''))]] w2
         in length (requests w2) = 2
            \<and> sessionId (handle w4) = JStr (js ''B'')
            \<and> promise (calls w4 ! 1) = Resolved (JStr (js ''A''))
            \<and> promise (calls w4 ! 0) = Resolved (JStr (js ''B'')))"
    unfolding Let_def by simp
  with unset pa ga pb gb show ?thesis
    unfolding Let_def by (intro conjI) simp_all
qed

section \<open>Failures leave the handle as it was\<close>

text \<open>
  Claim C10. A step changes the handle only if it is the end of a response with status
  200 to a \<open>getSessionId\<close> request. So the handle is unchanged by a response with any
  other status, by a transport error, by every response to a \<open>generateToken\<close> request
  (with status 200 too), by a call of \<open>generateToken\<close>, and by every step in which a
  pending promise becomes rejected.
\<close>

theorem failure_leaves_handle_unchanged:
  "(handle (step P ev w) \<noteq> handle w \<longrightarrow>
      (\<exists>i chunks. ev = End i 200 chunks \<and> in_flight i w
         \<and> operation (calls w ! i) = GetSessionId))
   \<and> (statusCode \<noteq> 200 \<longrightarrow> handle (step P (End i statusCode chunks) w1) = handle w1)
   \<and> handle (step P (Err i' e) w2) = handle w2
   \<and> (operation (calls w3 ! k) = GenerateToken \<longrightarrow>
        handle (step P (End k statusCode' chunks') w3) = handle w3)
   \<and> handle (step P (Call_generateToken t) w4) = handle w4
   \<and> (j < length (calls w5) \<and> promise (calls w5 ! j) = Pending
        \<and> promise (calls (step P ev' w5) ! j) = Rejected f \<longrightarrow>
        handle (step P ev' w5) = handle w5)"
  using handle_step_changes [of P ev w] handle_step_End_non200 [of statusCode P i chunks w1]
    handle_step_Err [of P i' e w2] handle_step_End_generateToken [of w3 k P statusCode' chunks']
    handle_step_Call_generateToken [of P t w4] rejecting_step_keeps_handle [of j w5 P ev' f]
  by blast

theorem failure_leaves_handle_unchanged_witness:
  "(let P = example_platform [id_object (JStr (js ''A''))];
        h = example_session None;
        w = step P Call_getSessionId (start h);
        w' = step P (Call_generateToken (Some empty_options)) (start h)
    in handle (step P (End 0 200 [id_body (JStr (js ''A''))]) w) \<noteq> handle w
       \<and> in_flight 0 w \<and> operation (calls w ! 0) = GetSessionId
       \<and> (400::nat) \<noteq> 200
       \<and> handle (step P (End 0 400 []) w) = handle w
       \<and> operation (calls w' ! 0) = GenerateToken
       \<and> handle (step P (End 0 200 [id_body (JStr (js ''A''))]) w') = handle w'
       \<and> 0 < length (calls w) \<and> promise (calls w ! 0) = Pending
       \<and> promise (calls (step P (End 0 400 []) w) ! 0) = Rejected (Error 400))"
proof -
  let ?P = "example_platform [id_object (JStr (js ''A''))]"
  let ?h = "example_session None"
  let ?w = "step ?P Call_getSessionId (start ?h)"
  let ?w' = "step ?P (Call_generateToken (Some empty_options)) (start ?h)"
  let ?ok = "End 0 200 [id_body (JStr (js ''A''))]"
  let ?ko = "End 0 400 []"
  have parse: "JSON_parse ?P (on_data [id_body (JStr (js ''A''))]) =
      Some (id_object (JStr (js ''A'')))"
    by (simp add: example_defs)
  have gid: "get_id (id_object (JStr (js ''A''))) = Inr (JStr (js ''A''))"
    by (simp add: id_object_def)
  note w = getSessionId_call_world [where P = ?P and w = "start ?h", unfolded start_empty list.size]
  have pending: "0 < length (calls ?w)" "promise (calls ?w ! 0) = Pending"
    using w(3) w(6) by (simp_all add: example_session_unset)
  have "sessionId (handle (step ?P ?ok ?w)) = JStr (js ''A'')"
    using step_End_getSessionId_200 [OF w(4) w(5) parse gid] by (simp add: handle_settle)
  moreover have "sessionId (handle ?w) = JUndefined"
    using w(1) by (simp add: example_session_unset)
  ultimately have changed: "handle (step ?P ?ok ?w) \<noteq> handle ?w"
    by auto
  have status: "(400::nat) \<noteq> 200"
    by simp
  have token: "operation (calls ?w' ! 0) = GenerateToken"
    by (simp add: calls_step_Call_generateToken start_empty)
  have rejected: "promise (calls (step ?P ?ko ?w) ! 0) = Rejected (Error 400)"
    using End_non200_rejects_pending [OF w(4) pending(2) status] .
  from failure_leaves_handle_unchanged
    [where P = ?P and ev = ?ok and w = ?w and statusCode = 400 and i = 0 and chunks = "[]"
      and ?w1.0 = ?w and i' = 0 and e = "[]" and ?w2.0 = ?w and ?w3.0 = ?w' and k = 0
      and statusCode' = 200 and chunks' = "[id_body (JStr (js ''A''))]"
      and t = "Some empty_options" and ?w4.0 = ?w and j = 0 and ?w5.0 = ?w and ev' = ?ko
      and f = "Error 400"]
    changed status token pending rejected
  have "in_flight 0 ?w \<and> operation (calls ?w ! 0) = GetSessionId
      \<and> handle (step ?P ?ko ?w) = handle ?w
      \<and> handle (step ?P ?ok ?w') = handle ?w'"
    by blast
  with changed status token pending rejected show ?thesis
    unfolding Let_def by (intro conjI) simp_all
qed

section \<open>getSessionId on a handle that has its identifier\<close>

text \<open>
  Claim C1. The documentation of \<open>getSessionId\<close> says that it simply returns the
  existing value once the identifier has been retrieved. The source resolves the promise
  with the cached identifier but does not return, so the request is built and sent all
  the same: after a first call has completed with \<open>"abc"\<close>, a second call resolves to
  \<open>"abc"\<close> and sends a second request to \<open>/api/sessions\<close>, two requests in total.
\<close>

theorem getSessionId_cached_still_requests:
  "(let P = example_platform [id_object (JStr (js ''abc''))];
        w2 = run P [Call_getSessionId, End 0 200 [id_body (JStr (js ''abc''))]]
               (start (example_session None));
        w3 = step P Call_getSessionId w2
    in sessionId (handle w2) = JStr (js ''abc'')
       \<and> promise (calls w2 ! 0) = Resolved (JStr (js ''abc''))
       \<and> length (requests w2) = 1
       \<and> promise (calls w3 ! 1) = Resolved (JStr (js ''abc''))
       \<and> length (requests w3) = 2
       \<and> path (options (requests w3 ! 1)) = js ''/api/sessions'')"
proof -
  let ?P = "example_platform [id_object (JStr (js ''abc''))]"
  let ?w0 = "start (example_session None)"
  let ?w2 = "run ?P [Call_getSessionId, End 0 200 [id_body (JStr (js ''abc''))]] ?w0"
  let ?w3 = "step ?P Call_getSessionId ?w2"
  have unset: "\<not> truthy (sessionId (handle ?w0))"
    by (simp add: start_empty example_session_unset)
  have parse: "JSON_parse ?P (on_data [id_body (JStr (js ''abc''))]) =
      Some (id_object (JStr (js ''abc'')))"
    by (simp add: example_defs)
  have gid: "get_id (id_object (JStr (js ''abc''))) = Inr (JStr (js ''abc''))"
    by (simp add: id_object_def)
  note first = getSessionId_first_call [OF unset parse gid, unfolded start_empty list.size]
  have cached: "truthy (sessionId (handle ?w2))"
    unfolding first(1) by (simp add: js_def)
  note again = getSessionId_cached_call [where P = ?P, OF cached, unfolded first]
  have "length (requests ?w3) = 2"
    by (simp add: again(2) first(4))
  moreover have "path (options (requests ?w3 ! 1)) = js ''/api/sessions''"
    using first(4) by (simp add: again(2) nth_append getSessionId_def Let_def API_SESSIONS_def)
  moreover have "promise (calls ?w3 ! 1) = Resolved (JStr (js ''abc''))"
    using again(1) by simp
  ultimately show ?thesis
    using first unfolding Let_def by simp
qed

text \<open>
  Claim C3. On a handle that has its identifier, the request that \<open>getSessionId\<close> still
  sends can be answered with a status other than 200. The promise was resolved before
  the request left, so \<open>reject(new Error(res.statusCode))\<close> has no effect: with the
  answer 400 the call completes with \<open>"abc"\<close>, not with a failure carrying 400.
\<close>

theorem getSessionId_cached_ignores_status:
  "(let P = example_platform [id_object (JStr (js ''abc''))];
        w2 = run P [Call_getSessionId, End 0 200 [id_body (JStr (js ''abc''))]]
               (start (example_session None));
        w4 = run P [Call_getSessionId, End 1 400 []] w2
    in sessionId (handle w2) = JStr (js ''abc'')
       \<and> in_flight 1 (step P Call_getSessionId w2)
       \<and> promise (calls w4 ! 1) = Resolved (JStr (js ''abc''))
       \<and> promise (calls w4 ! 1) \<noteq> Rejected (Error 400))"
proof -
  let ?P = "example_platform [id_object (JStr (js ''abc''))]"
  let ?w0 = "start (example_session None)"
  let ?w2 = "run ?P [Call_getSessionId, End 0 200 [id_body (JStr (js ''abc''))]] ?w0"
  let ?w4 = "run ?P [Call_getSessionId, End 1 400 []] ?w2"
  have unset: "\<not> truthy (sessionId (handle ?w0))"
    by (simp add: start_empty example_session_unset)
  have parse: "JSON_parse ?P (on_data [id_body (JStr (js ''abc''))]) =
      Some (id_object (JStr (js ''abc'')))"
    by (simp add: example_defs)
  have gid: "get_id (id_object (JStr (js ''abc''))) = Inr (JStr (js ''abc''))"
    by (simp add: id_object_def)
  note first = getSessionId_first_call [OF unset parse gid, unfolded start_empty list.size]
  have cached: "truthy (sessionId (handle ?w2))"
    unfolding first(1) by (simp add: js_def)
  have status: "(400::nat) \<noteq> 200"
    by simp
  note again = getSessionId_cached_call [where P = ?P, OF cached, unfolded first]
  have "promise (calls ?w4 ! 1) = Resolved (JStr (js ''abc''))"
    unfolding run_two [where w = ?w2] using again(4) [OF status, of "[]"] by simp
  moreover have "in_flight 1 (step ?P Call_getSessionId ?w2)"
    using again(3) by simp
  ultimately show ?thesis
    using first(1) unfolding Let_def by simp
qed

text \<open>
  Claim C4. On a handle that has the identifier \<open>"old"\<close>, the request that
  \<open>getSessionId\<close> still sends is answered with status 200 and the body
  \<open>{"id":"new"}\<close>. The handler stores \<open>"new"\<close> in \<open>sessionId\<close>, but the promise was
  already resolved with \<open>"old"\<close>: the call does not complete with the identifier it
  stored.
\<close>

theorem getSessionId_cached_resolves_stale:
  "(let P = example_platform [id_object (JStr (js ''old'')), id_object (JStr (js ''new''))];
        w2 = run P [Call_getSessionId, End 0 200 [id_body (JStr (js ''old''))]]
               (start (example_session None));
        w4 = run P [Call_getSessionId, End 1 200 [id_body (JStr (js ''new''))]] w2
    in sessionId (handle w2) = JStr (js ''old'')
       \<and> JSON_parse P (on_data [id_body (JStr (js ''new''))]) = Some (id_object (JStr (js ''new'')))
       \<and> get_id (id_object (JStr (js ''new''))) = Inr (JStr (js ''new''))
       \<and> sessionId (handle w4) = JStr (js ''new'')
       \<and> promise (calls w4 ! 1) = Resolved (JStr (js ''old''))
       \<and> promise (calls w4 ! 1) \<noteq> Resolved (JStr (js ''new'')))"
proof -
  let ?P = "example_platform [id_object (JStr (js ''old'')), id_object (JStr (js ''new''))]"
  let ?w0 = "start (example_session None)"
  let ?w2 = "run ?P [Call_getSessionId, End 0 200 [id_body (JStr (js ''old''))]] ?w0"
  let ?w4 = "run ?P [Call_getSessionId, End 1 200 [id_body (JStr (js ''new''))]] ?w2"
  have unset: "\<not> truthy (sessionId (handle ?w0))"
    by (simp add: start_empty example_session_unset)
  have parse_old: "JSON_parse ?P (on_data [id_body (JStr (js ''old''))]) =
      Some (id_object (JStr (js ''old'')))"
    by (simp add: example_defs)
  have gid_old: "get_id (id_object (JStr (js ''old''))) = Inr (JStr (js ''old''))"
    by (simp add: id_object_def)
  have parse_new: "JSON_parse ?P (on_data [id_body (JStr (js ''new''))]) =
      Some (id_object (JStr (js ''new'')))"
    by (simp add: example_defs)
  have gid_new: "get_id (id_object (JStr (js ''new''))) = Inr (JStr (js ''new''))"
    by (simp add: id_object_def)
  note first = getSessionId_first_call [OF unset parse_old gid_old, unfolded start_empty list.size]
  have cached: "truthy (sessionId (handle ?w2))"
    unfolding first(1) by (simp add: js_def)
  note again = getSessionId_cached_call [where P = ?P, OF cached, unfolded first]
  have "sessionId (handle ?w4) = JStr (js ''new'')
      \<and> promise (calls ?w4 ! 1) = Resolved (JStr (js ''old''))"
    unfolding run_two [where w = ?w2] using again(5) [OF parse_new gid_new] by simp
  moreover have "Resolved (JStr (js ''old'')) \<noteq> Resolved (JStr (js ''new''))"
    by (simp add: js_def)
  ultimately show ?thesis
    using first(1) parse_new gid_new unfolding Let_def by simp
qed

end
